theory Spec2Isabelle
  imports Main "HOL-Library.Word"
begin

section \<open>The buffer wrapper of \<^verbatim>\<open>projects/Lab 4/src/IBuffer.h\<close>\<close>

text \<open>
  The header declares two enumerations and the class \<^verbatim>\<open>IBuffer\<close>. The accessors and
  the generic \<^verbatim>\<open>LoadData<T>\<close> overload have their bodies in the header; the
  constructor, the destructor, the byte-span \<^verbatim>\<open>LoadData\<close>, \<^verbatim>\<open>Bind\<close> and
  \<^verbatim>\<open>UnBind\<close> are only declared there: their bodies are in a translation unit of
  their own.
\<close>

subsection \<open>Data model\<close>

text \<open>\<^verbatim>\<open>enum class BufferType { Vertex = GL_ARRAY_BUFFER, Index = GL_ELEMENT_ARRAY_BUFFER }\<close>\<close>

datatype BufferType = Vertex | Index

text \<open>\<^verbatim>\<open>enum class BufferUsage\<close>: the nine usage hints, in the order of the header.\<close>

datatype BufferUsage =
    StreamDraw | StreamRead | StreamCopy
  | StaticDraw | StaticRead | StaticCopy
  | DynamicDraw | DynamicRead | DynamicCopy

text \<open>
  \<^verbatim>\<open>GLuint\<close> is OpenGL's 32-bit unsigned integer. \<^verbatim>\<open>size_t\<close> is an unsigned integer
  whose width depends on the platform: it is a word of an arbitrary length \<open>'w\<close>.
\<close>

type_synonym GLuint = "32 word"
type_synonym byte = "8 word"

text \<open>
  The five protected fields of \<^verbatim>\<open>IBuffer\<close>, in the order of their declaration
  (\<^verbatim>\<open>_elementSize\<close>, \<^verbatim>\<open>_elementCount\<close>, \<^verbatim>\<open>_handle\<close>, \<^verbatim>\<open>_usage\<close>,
  \<^verbatim>\<open>_type\<close>; an Isabelle name cannot start with an underscore, so the fields are
  \<open>m_elementSize\<close> and so on). The record is extensible: the fields a derived class
  adds are the extension \<open>'z\<close> of an \<open>IBuffer_scheme\<close>.
\<close>

record (overloaded) ('w::len) IBuffer =
  m_elementSize :: "'w word"
  m_elementCount :: "'w word"
  m_handle :: GLuint
  m_usage :: BufferUsage
  m_type :: BufferType

subsection \<open>Accessors (bodies in the header)\<close>

definition GetElementCount :: "('w::len, 'z) IBuffer_scheme \<Rightarrow> 'w word" where
  "GetElementCount b = m_elementCount b"

definition GetElementSize :: "('w::len, 'z) IBuffer_scheme \<Rightarrow> 'w word" where
  "GetElementSize b = m_elementSize b"

text \<open>\<^verbatim>\<open>return _elementCount * _elementSize;\<close> on \<^verbatim>\<open>size_t\<close>: the product wraps.\<close>

definition GetTotalSize :: "('w::len, 'z) IBuffer_scheme \<Rightarrow> 'w word" where
  "GetTotalSize b = m_elementCount b * m_elementSize b"

definition GetType :: "('w::len, 'z) IBuffer_scheme \<Rightarrow> BufferType" where
  "GetType b = m_type b"

definition GetUsage :: "('w::len, 'z) IBuffer_scheme \<Rightarrow> BufferUsage" where
  "GetUsage b = m_usage b"

definition GetHandle :: "('w::len, 'z) IBuffer_scheme \<Rightarrow> GLuint" where
  "GetHandle b = m_handle b"

subsection \<open>The driver\<close>

text \<open>
  Modelled from the spec: the driver-side state the wrapper acts on (OpenGL itself is
  outside the repository). The spec names two parts of it: the contents of each native
  buffer resource, found by its handle, and the global binding slot of each buffer kind,
  which is empty or holds the handle of the active buffer.
\<close>

record gl_state =
  contents :: "GLuint \<Rightarrow> byte list"
  slot :: "BufferType \<Rightarrow> GLuint option"

text \<open>
  A call acts on the object and on the driver: the pair of both is threaded through.
  A pointer \<^verbatim>\<open>const void* data\<close> is the memory readable from it, a byte for each offset.
\<close>

type_synonym ('w, 'z) world = "('w, 'z) IBuffer_scheme \<times> gl_state"
type_synonym memory = "nat \<Rightarrow> byte"

subsection \<open>Operations declared in the header, bodies elsewhere\<close>

text \<open>
  Modelled from the spec: the uploaded payload, the first \<open>elementSize * elementCount\<close>
  bytes of the source span (the body of \<^verbatim>\<open>IBuffer::LoadData\<close> is missing).
\<close>

definition payload :: "memory \<Rightarrow> 'w::len word \<Rightarrow> 'w word \<Rightarrow> byte list" where
  "payload data elementSize elementCount =
     map data [0 ..< unat elementSize * unat elementCount]"

text \<open>
  Modelled from the spec: the body of
  \<^verbatim>\<open>virtual void IBuffer::LoadData(const void* data, size_t elementSize, size_t elementCount)\<close>
  is missing. The spec: the entire native resource's contents are replaced (full
  overwrite, not appended or patched); element size and element count are updated to
  match. There is no return value.
\<close>

definition LoadData ::
  "memory \<Rightarrow> 'w::len word \<Rightarrow> 'w word \<Rightarrow> ('w, 'z) world \<Rightarrow> ('w, 'z) world" where
  "LoadData data elementSize elementCount s =
     (case s of (b, g) \<Rightarrow>
        (b\<lparr>m_elementSize := elementSize, m_elementCount := elementCount\<rparr>,
         g\<lparr>contents := (contents g)(m_handle b := payload data elementSize elementCount)\<rparr>))"

text \<open>
  Modelled from the spec: the body of \<^verbatim>\<open>virtual void IBuffer::Bind()\<close> is missing. The
  spec: makes this buffer the active resource for its kind's binding slot.
\<close>

definition Bind :: "('w::len, 'z) IBuffer_scheme \<Rightarrow> gl_state \<Rightarrow> gl_state" where
  "Bind b g = g\<lparr>slot := (slot g)(m_type b := Some (m_handle b))\<rparr>"

text \<open>
  Modelled from the spec: the body of \<^verbatim>\<open>static void IBuffer::UnBind(BufferType type)\<close>
  is missing. The spec: clears whatever buffer is currently active in that kind's
  binding slot, regardless of which instance it was.
\<close>

definition UnBind :: "BufferType \<Rightarrow> gl_state \<Rightarrow> gl_state" where
  "UnBind type g = g\<lparr>slot := (slot g)(type := None)\<rparr>"


text \<open>The buffer \<open>b\<close> is the active one of its kind's binding slot.\<close>

definition active :: "('w::len, 'z) IBuffer_scheme \<Rightarrow> gl_state \<Rightarrow> bool" where
  "active b g = (slot g (m_type b) = Some (m_handle b))"

subsection \<open>The generic overload (body in the header)\<close>

text \<open>
  The byte-span \<^verbatim>\<open>LoadData\<close> is virtual: a call through an object runs the final
  overrider of the object's dynamic class. A class is described by its override of the
  byte-span form, if it has one; \<open>None\<close> is a class that inherits \<^verbatim>\<open>IBuffer\<close>'s. The body
  of \<^verbatim>\<open>IBuffer::LoadData\<close> is not in the header: both definitions take it as the
  parameter \<open>IBuffer_LoadData\<close>.
\<close>

type_synonym ('w, 'z) LoadData_impl =
  "memory \<Rightarrow> 'w word \<Rightarrow> 'w word \<Rightarrow> ('w, 'z) world \<Rightarrow> ('w, 'z) world"

definition virtual_LoadData ::
  "('w::len, 'z) LoadData_impl \<Rightarrow> ('w, 'z) LoadData_impl option
     \<Rightarrow> ('w, 'z) LoadData_impl" where
  "virtual_LoadData IBuffer_LoadData override =
     (case override of None \<Rightarrow> IBuffer_LoadData | Some f \<Rightarrow> f)"

text \<open>
  \<^verbatim>\<open>template <typename T> void LoadData(const T* data, size_t count)
  { IBuffer::LoadData((const void*)(data), sizeof(T), count); }\<close>
  The call is qualified, so it is bound to \<^verbatim>\<open>IBuffer\<close>'s own implementation whatever
  the dynamic class of the object (\<open>override\<close>) is. \<open>sizeof_T\<close> is \<^verbatim>\<open>sizeof(T)\<close>; the cast
  of the pointer leaves the memory it points to as it is.
\<close>

definition LoadData_T ::
  "('w::len, 'z) LoadData_impl \<Rightarrow> ('w, 'z) LoadData_impl option
     \<Rightarrow> 'w word \<Rightarrow> memory \<Rightarrow> 'w word \<Rightarrow> ('w, 'z) world \<Rightarrow> ('w, 'z) world" where
  "LoadData_T IBuffer_LoadData override sizeof_T data count s =
     IBuffer_LoadData data sizeof_T count s"

section \<open>Properties\<close>

subsection \<open>Upload\<close>

text \<open>The two halves of the state an upload leaves, and two uploads in a row.\<close>

lemma LoadData_fst:
  "fst (LoadData data elementSize elementCount s)
     = (fst s)\<lparr>m_elementSize := elementSize, m_elementCount := elementCount\<rparr>"
  by (cases s) (simp add: LoadData_def)

lemma LoadData_snd:
  "snd (LoadData data elementSize elementCount s)
     = (snd s)\<lparr>contents := (contents (snd s))
         (m_handle (fst s) := payload data elementSize elementCount)\<rparr>"
  by (cases s) (simp add: LoadData_def)

lemma LoadData_absorbs:
  "LoadData data elementSize elementCount (LoadData data' elementSize' elementCount' s)
     = LoadData data elementSize elementCount s"
proof (rule prod_eqI)
  show "fst (LoadData data elementSize elementCount
          (LoadData data' elementSize' elementCount' s))
      = fst (LoadData data elementSize elementCount s)"
    by (simp add: LoadData_fst)
  show "snd (LoadData data elementSize elementCount
          (LoadData data' elementSize' elementCount' s))
      = snd (LoadData data elementSize elementCount s)"
    by (simp add: LoadData_fst LoadData_snd)
qed

text \<open>
  C1. \<^verbatim>\<open>LoadData(data, elementSize, elementCount)\<close> sets the stored element size and
  element count to exactly its arguments and replaces the contents of the buffer's
  native resource by the uploaded payload, whatever they were before. A second call
  leaves nothing of the first: two calls in a row give the same object and the same
  driver state as the second call alone, so the accessors report the second call's
  element size and element count.
\<close>

theorem LoadData_replaces:
  fixes s :: "('w::len, 'z) world"
  shows "GetElementSize (fst (LoadData data elementSize elementCount s)) = elementSize
    \<and> GetElementCount (fst (LoadData data elementSize elementCount s)) = elementCount
    \<and> contents (snd (LoadData data elementSize elementCount s)) (GetHandle (fst s))
         = payload data elementSize elementCount
    \<and> LoadData data elementSize elementCount (LoadData data' elementSize' elementCount' s)
         = LoadData data elementSize elementCount s
    \<and> GetElementSize (fst (LoadData data elementSize elementCount
           (LoadData data' elementSize' elementCount' s))) = elementSize
    \<and> GetElementCount (fst (LoadData data elementSize elementCount
           (LoadData data' elementSize' elementCount' s))) = elementCount"
proof -
  let ?once = "LoadData data elementSize elementCount s"
  let ?twice = "LoadData data elementSize elementCount
    (LoadData data' elementSize' elementCount' s)"
  have size: "GetElementSize (fst ?once) = elementSize"
    and count: "GetElementCount (fst ?once) = elementCount"
    by (simp_all add: LoadData_fst GetElementSize_def GetElementCount_def)
  have bytes: "contents (snd ?once) (GetHandle (fst s)) = payload data elementSize elementCount"
    by (simp add: LoadData_snd GetHandle_def)
  have absorbed: "?twice = ?once"
    by (rule LoadData_absorbs)
  from size count bytes absorbed show ?thesis
    by simp
qed

text \<open>
  The upload touches neither the handle, the kind nor the usage hint of the object, and
  neither the contents of another native resource nor a binding slot.
\<close>

lemma LoadData_keeps_identity:
  fixes s :: "('w::len, 'z) world"
  shows "GetHandle (fst (LoadData data elementSize elementCount s)) = GetHandle (fst s)
    \<and> GetType (fst (LoadData data elementSize elementCount s)) = GetType (fst s)
    \<and> GetUsage (fst (LoadData data elementSize elementCount s)) = GetUsage (fst s)"
  by (simp add: LoadData_fst GetHandle_def GetType_def GetUsage_def)

lemma LoadData_frame:
  fixes s :: "('w::len, 'z) world"
  assumes "h \<noteq> GetHandle (fst s)"
  shows "contents (snd (LoadData data elementSize elementCount s)) h = contents (snd s) h"
    and "slot (snd (LoadData data elementSize elementCount s)) = slot (snd s)"
  using assms by (simp_all add: LoadData_snd GetHandle_def)

text \<open>The payload has \<open>elementSize * elementCount\<close> bytes, counted without wrap-around.\<close>

lemma length_payload:
  "length (payload data elementSize elementCount) = unat elementSize * unat elementCount"
  by (simp add: payload_def)

subsection \<open>Accessors\<close>

text \<open>
  C2. \<^verbatim>\<open>GetTotalSize()\<close> is the product (of \<^verbatim>\<open>size_t\<close> values) of what
  \<^verbatim>\<open>GetElementSize()\<close> and \<^verbatim>\<open>GetElementCount()\<close> return. After
  \<^verbatim>\<open>LoadData(data, 4, 10)\<close> the three accessors return 4, 10 and 40.
\<close>

theorem GetTotalSize_is_product:
  fixes b :: "('w::len, 'z) IBuffer_scheme" and s :: "('w, 'y) world"
  shows "GetTotalSize b = GetElementSize b * GetElementCount b
    \<and> GetElementSize (fst (LoadData data 4 10 s)) = 4
    \<and> GetElementCount (fst (LoadData data 4 10 s)) = 10
    \<and> GetTotalSize (fst (LoadData data 4 10 s)) = 40"
  by (cases s)
    (simp add: GetTotalSize_def GetElementSize_def GetElementCount_def LoadData_def
      mult.commute)

text \<open>
  C9. The product of \<^verbatim>\<open>GetTotalSize()\<close> is taken in \<^verbatim>\<open>size_t\<close>: read as a number, the
  result is the mathematical product of the stored count and size reduced modulo
  \<open>2 ^ w\<close>, \<open>w\<close> the width of \<^verbatim>\<open>size_t\<close>. When the mathematical product does not fit
  in \<open>w\<close> bits, the result is smaller than it: it is not the true size in bytes.
\<close>

theorem GetTotalSize_wraps:
  fixes b :: "('w::len, 'z) IBuffer_scheme"
  shows "unat (GetTotalSize b)
      = (unat (GetElementCount b) * unat (GetElementSize b)) mod 2 ^ LENGTH('w)
    \<and> (2 ^ LENGTH('w) \<le> unat (GetElementCount b) * unat (GetElementSize b)
         \<longrightarrow> unat (GetTotalSize b) < unat (GetElementCount b) * unat (GetElementSize b))"
proof -
  let ?p = "unat (GetElementCount b) * unat (GetElementSize b)"
  have wrap: "unat (GetTotalSize b) = ?p mod 2 ^ LENGTH('w)"
    by (simp add: GetTotalSize_def GetElementCount_def GetElementSize_def unat_word_ariths)
  have below: "?p mod 2 ^ LENGTH('w) < (2::nat) ^ LENGTH('w)"
    by simp
  have "unat (GetTotalSize b) < ?p" if "2 ^ LENGTH('w) \<le> ?p"
    using wrap below that by linarith
  with wrap show ?thesis
    by blast
qed

text \<open>
  With a 64-bit \<^verbatim>\<open>size_t\<close>, \<open>2 ^ 32\<close> elements of \<open>2 ^ 32\<close> bytes have a total size of 0.
\<close>

theorem GetTotalSize_wraps_witness:
  "2 ^ LENGTH(64) \<le> unat (GetElementCount (\<lparr>m_elementSize = 4294967296, m_elementCount = 4294967296, m_handle = 1,
        m_usage = StaticDraw, m_type = Vertex\<rparr> :: 64 IBuffer)) * unat (GetElementSize (\<lparr>m_elementSize = 4294967296, m_elementCount = 4294967296, m_handle = 1,
        m_usage = StaticDraw, m_type = Vertex\<rparr> :: 64 IBuffer))
   \<and> unat (GetTotalSize (\<lparr>m_elementSize = 4294967296, m_elementCount = 4294967296, m_handle = 1,
        m_usage = StaticDraw, m_type = Vertex\<rparr> :: 64 IBuffer)) = 0
   \<and> unat (GetTotalSize (\<lparr>m_elementSize = 4294967296, m_elementCount = 4294967296, m_handle = 1,
        m_usage = StaticDraw, m_type = Vertex\<rparr> :: 64 IBuffer)) < unat (GetElementCount (\<lparr>m_elementSize = 4294967296, m_elementCount = 4294967296, m_handle = 1,
        m_usage = StaticDraw, m_type = Vertex\<rparr> :: 64 IBuffer)) * unat (GetElementSize (\<lparr>m_elementSize = 4294967296, m_elementCount = 4294967296, m_handle = 1,
        m_usage = StaticDraw, m_type = Vertex\<rparr> :: 64 IBuffer))"
  using GetTotalSize_wraps [of "\<lparr>m_elementSize = 4294967296, m_elementCount = 4294967296, m_handle = 1,
        m_usage = StaticDraw, m_type = Vertex\<rparr> :: 64 IBuffer"]
  by (simp add: GetTotalSize_def GetElementCount_def GetElementSize_def)

subsection \<open>The generic overload\<close>

text \<open>
  C3. For every element size \<^verbatim>\<open>sizeof(T)\<close>, every pointer and every count, the generic
  overload \<^verbatim>\<open>LoadData(data, count)\<close> does what the byte-span form
  \<^verbatim>\<open>IBuffer::LoadData((const void*)data, sizeof(T), count)\<close> does, and nothing else,
  whatever the body of the byte-span form is. On an object whose class does not
  override the byte-span form, that is also what the call of the byte-span form through
  the object does.
\<close>

theorem LoadData_T_delegates:
  fixes IBuffer_LoadData :: "('w::len, 'z) LoadData_impl"
  shows "LoadData_T IBuffer_LoadData override sizeof_T data count s
      = IBuffer_LoadData data sizeof_T count s
    \<and> LoadData_T IBuffer_LoadData None sizeof_T data count s
      = virtual_LoadData IBuffer_LoadData None data sizeof_T count s"
  by (simp add: LoadData_T_def virtual_LoadData_def)

text \<open>
  With the upload of the spec as the byte-span form, the generic overload stores the
  compile-time size of the element and the count.
\<close>

lemma LoadData_T_metadata:
  fixes s :: "('w::len, 'z) world"
  shows "GetElementSize (fst (LoadData_T LoadData override sizeof_T data count s)) = sizeof_T
    \<and> GetElementCount (fst (LoadData_T LoadData override sizeof_T data count s)) = count"
proof -
  have "LoadData_T LoadData override sizeof_T data count s = LoadData data sizeof_T count s"
    by (simp add: LoadData_T_def)
  then show ?thesis
    by (simp add: LoadData_fst GetElementSize_def GetElementCount_def)
qed

text \<open>
  C10. The generic overload calls \<^verbatim>\<open>IBuffer::LoadData\<close> by its qualified name. On an
  object of a derived class that overrides the byte-span form with \<open>f\<close>, a call of the
  byte-span form through the object runs \<open>f\<close>, and the generic overload still runs
  \<^verbatim>\<open>IBuffer\<close>'s implementation.
\<close>

theorem LoadData_T_static_dispatch:
  fixes IBuffer_LoadData :: "('w::len, 'z) LoadData_impl"
  shows "virtual_LoadData IBuffer_LoadData (Some f) data sizeof_T count s
      = f data sizeof_T count s
    \<and> LoadData_T IBuffer_LoadData (Some f) sizeof_T data count s
      = IBuffer_LoadData data sizeof_T count s"
  by (simp add: LoadData_T_def virtual_LoadData_def)

text \<open>
  The two calls do differ: for a derived class whose override does nothing, the generic
  overload changes the stored element size where the virtual call leaves it.
\<close>

lemma override_bypassed:
  fixes s :: "('w::len, 'z) world"
  assumes "GetElementSize (fst s) \<noteq> sizeof_T"
  shows "LoadData_T LoadData (Some (\<lambda>data elementSize elementCount w. w)) sizeof_T data count s
    \<noteq> virtual_LoadData LoadData (Some (\<lambda>data elementSize elementCount w. w))
         data sizeof_T count s"
proof
  assume same:
    "LoadData_T LoadData (Some (\<lambda>data elementSize elementCount w. w)) sizeof_T data count s
      = virtual_LoadData LoadData (Some (\<lambda>data elementSize elementCount w. w))
          data sizeof_T count s"
  have "GetElementSize (fst (LoadData data sizeof_T count s)) = sizeof_T"
    by (simp add: LoadData_fst GetElementSize_def)
  moreover from same have "LoadData data sizeof_T count s = s"
    by (simp add: LoadData_T_def virtual_LoadData_def)
  ultimately show False
    using assms by simp
qed

subsection \<open>Construction\<close>




subsection \<open>Binding\<close>

text \<open>
  C5. After \<open>b.Bind()\<close> and then \<open>UnBind(k)\<close> with \<open>k\<close> the kind of \<open>b\<close>, the slot of that
  kind is empty. After \<open>A.Bind()\<close> and then \<open>B.Bind()\<close> for two buffers of the same kind,
  \<open>B\<close> is the active buffer of the slot, and \<open>A\<close>, a buffer with a native handle of its
  own, is not any more.
\<close>

theorem Bind_UnBind_slot:
  fixes b :: "('w::len, 'x) IBuffer_scheme"
    and A :: "('w, 'y) IBuffer_scheme" and B :: "('w, 'z) IBuffer_scheme"
  shows "slot (UnBind (GetType b) (Bind b g)) (GetType b) = None
    \<and> (GetType A = GetType B \<longrightarrow>
          slot (Bind B (Bind A g)) (GetType B) = Some (GetHandle B)
        \<and> active B (Bind B (Bind A g))
        \<and> (GetHandle A \<noteq> GetHandle B \<longrightarrow> \<not> active A (Bind B (Bind A g))))"
  by (simp add: Bind_def UnBind_def active_def GetType_def GetHandle_def)

text \<open>Two vertex buffers with the handles 1 and 2, on a driver with nothing bound.\<close>

theorem Bind_UnBind_slot_witness:
  "slot (UnBind Vertex
        (Bind (\<lparr>m_elementSize = 0, m_elementCount = 0, m_handle = 1, m_usage = StaticDraw,
            m_type = Vertex\<rparr> :: 64 IBuffer)
          \<lparr>contents = \<lambda>h. [], slot = \<lambda>k. None\<rparr>)) Vertex = None
   \<and> GetType (\<lparr>m_elementSize = 0, m_elementCount = 0, m_handle = 1, m_usage = StaticDraw,
        m_type = Vertex\<rparr> :: 64 IBuffer)
     = GetType (\<lparr>m_elementSize = 0, m_elementCount = 0, m_handle = 2, m_usage = StaticDraw,
        m_type = Vertex\<rparr> :: 64 IBuffer)
   \<and> GetHandle (\<lparr>m_elementSize = 0, m_elementCount = 0, m_handle = 1, m_usage = StaticDraw,
        m_type = Vertex\<rparr> :: 64 IBuffer)
     \<noteq> GetHandle (\<lparr>m_elementSize = 0, m_elementCount = 0, m_handle = 2, m_usage = StaticDraw,
        m_type = Vertex\<rparr> :: 64 IBuffer)
   \<and> active (\<lparr>m_elementSize = 0, m_elementCount = 0, m_handle = 2, m_usage = StaticDraw,
        m_type = Vertex\<rparr> :: 64 IBuffer)
      (Bind (\<lparr>m_elementSize = 0, m_elementCount = 0, m_handle = 2, m_usage = StaticDraw,
          m_type = Vertex\<rparr> :: 64 IBuffer)
        (Bind (\<lparr>m_elementSize = 0, m_elementCount = 0, m_handle = 1, m_usage = StaticDraw,
            m_type = Vertex\<rparr> :: 64 IBuffer)
          \<lparr>contents = \<lambda>h. [], slot = \<lambda>k. None\<rparr>))
   \<and> \<not> active (\<lparr>m_elementSize = 0, m_elementCount = 0, m_handle = 1, m_usage = StaticDraw,
        m_type = Vertex\<rparr> :: 64 IBuffer)
      (Bind (\<lparr>m_elementSize = 0, m_elementCount = 0, m_handle = 2, m_usage = StaticDraw,
          m_type = Vertex\<rparr> :: 64 IBuffer)
        (Bind (\<lparr>m_elementSize = 0, m_elementCount = 0, m_handle = 1, m_usage = StaticDraw,
            m_type = Vertex\<rparr> :: 64 IBuffer)
          \<lparr>contents = \<lambda>h. [], slot = \<lambda>k. None\<rparr>))"
  using Bind_UnBind_slot
    [of "\<lparr>m_elementSize = 0, m_elementCount = 0, m_handle = 1, m_usage = StaticDraw,
        m_type = Vertex\<rparr> :: 64 IBuffer"
      "\<lparr>contents = \<lambda>h. [], slot = \<lambda>k. None\<rparr>"
      "\<lparr>m_elementSize = 0, m_elementCount = 0, m_handle = 1, m_usage = StaticDraw,
        m_type = Vertex\<rparr> :: 64 IBuffer"
      "\<lparr>m_elementSize = 0, m_elementCount = 0, m_handle = 2, m_usage = StaticDraw,
        m_type = Vertex\<rparr> :: 64 IBuffer"]
  by (simp add: GetType_def GetHandle_def)

text \<open>
  C6. \<open>Bind\<close> is idempotent: a second \<open>Bind()\<close> right after the first leaves the driver
  state the first one left, and \<open>Bind()\<close> on a buffer that is already the active one of
  its kind's slot changes nothing.
\<close>

theorem Bind_idempotent:
  fixes b :: "('w::len, 'z) IBuffer_scheme"
  shows "Bind b (Bind b g) = Bind b g \<and> (active b g \<longrightarrow> Bind b g = g)"
proof -
  have again: "Bind b (Bind b g) = Bind b g"
    by (simp add: Bind_def)
  have "Bind b g = g" if "active b g"
  proof -
    from that have "(slot g)(m_type b := Some (m_handle b)) = slot g"
      by (simp add: active_def fun_upd_idem)
    then show ?thesis
      by (simp add: Bind_def)
  qed
  with again show ?thesis
    by blast
qed

text \<open>An index buffer with the handle 3, already bound to the index slot.\<close>

theorem Bind_idempotent_witness:
  "active (\<lparr>m_elementSize = 2, m_elementCount = 6, m_handle = 3, m_usage = StaticDraw,
        m_type = Index\<rparr> :: 64 IBuffer)
      \<lparr>contents = \<lambda>h. [], slot = (\<lambda>k. None)(Index := Some 3)\<rparr>
   \<and> Bind (\<lparr>m_elementSize = 2, m_elementCount = 6, m_handle = 3, m_usage = StaticDraw,
        m_type = Index\<rparr> :: 64 IBuffer)
      \<lparr>contents = \<lambda>h. [], slot = (\<lambda>k. None)(Index := Some 3)\<rparr>
     = \<lparr>contents = \<lambda>h. [], slot = (\<lambda>k. None)(Index := Some 3)\<rparr>"
  using Bind_idempotent
    [of "\<lparr>m_elementSize = 2, m_elementCount = 6, m_handle = 3, m_usage = StaticDraw,
        m_type = Index\<rparr> :: 64 IBuffer"
      "\<lparr>contents = \<lambda>h. [], slot = (\<lambda>k. None)(Index := Some 3)\<rparr>"]
  by (simp add: active_def)

end
